theory Spec2Isabelle
  imports Complex_Main
begin

section \<open>Vectors\<close>

text \<open>
  The program stores every point and direction in a \<^verbatim>\<open>vec2\<close> of the gl-matrix
  library, a dependency of the program. The embedding takes the coordinates as real
  numbers: rounding of the floating-point implementation is not modelled. The operations
  below are the gl-matrix operations the sources call, with the behaviour the library
  documents, each returning its \<^verbatim>\<open>out\<close> argument as a new value.
\<close>

type_synonym vec2 = "real \<times> real"

definition vec2_sub :: "vec2 \<Rightarrow> vec2 \<Rightarrow> vec2" where
  "vec2_sub a b = (fst a - fst b, snd a - snd b)"

definition vec2_add :: "vec2 \<Rightarrow> vec2 \<Rightarrow> vec2" where
  "vec2_add a b = (fst a + fst b, snd a + snd b)"

definition vec2_scale :: "vec2 \<Rightarrow> real \<Rightarrow> vec2" where
  "vec2_scale a k = (fst a * k, snd a * k)"

definition vec2_scaleAndAdd :: "vec2 \<Rightarrow> vec2 \<Rightarrow> real \<Rightarrow> vec2" where
  "vec2_scaleAndAdd a b k = (fst a + fst b * k, snd a + snd b * k)"

definition vec2_dot :: "vec2 \<Rightarrow> vec2 \<Rightarrow> real" where
  "vec2_dot a b = fst a * fst b + snd a * snd b"

text \<open>
  \<^verbatim>\<open>vec2.normalize\<close> scales by the inverse length only when the squared length is
  positive; the zero vector stays the zero vector.
\<close>

definition vec2_normalize :: "vec2 \<Rightarrow> vec2" where
  "vec2_normalize a =
     (let len = fst a * fst a + snd a * snd a;
          len' = (if len > 0 then 1 / sqrt len else len)
      in (fst a * len', snd a * len'))"

definition vec2_distance :: "vec2 \<Rightarrow> vec2 \<Rightarrow> real" where
  "vec2_distance a b =
     (let x = fst b - fst a; y = snd b - snd a in sqrt (x * x + y * y))"

section \<open>The scene (namespace Scene, scene.ts)\<close>

text \<open>
  \<^verbatim>\<open>Player\<close> and \<^verbatim>\<open>Entity\<close> carry a \<^verbatim>\<open>tag\<close> field whose type has a single value; it is
  left out. The fields of \<^verbatim>\<open>Mirror\<close> are \<^verbatim>\<open>id\<close>, \<^verbatim>\<open>start\<close> and \<^verbatim>\<open>end\<close>; the field names
  get the prefix of their record because \<open>id\<close> and \<open>end\<close> are taken.
\<close>

record Player =
  p_position :: vec2

record Entity =
  e_id :: string
  e_position :: vec2
  e_vertices :: "vec2 \<times> vec2 \<times> vec2"

record Mirror =
  m_id :: string
  m_start :: vec2
  m_end :: vec2

record Scene =
  player :: Player
  entities :: "Entity list"
  mirrors :: "Mirror list"

definition ENTITY_SIZE :: real where
  "ENTITY_SIZE = 8"

definition PLAYER_RADIUS :: real where
  "PLAYER_RADIUS = 12"

definition entity :: "vec2 \<Rightarrow> string \<Rightarrow> Entity" where
  "entity pos ident =
     (let x = fst pos; y = snd pos in
      \<lparr>e_id = ident, e_position = (x, y),
       e_vertices = ((x, y - ENTITY_SIZE),
                     (x - ENTITY_SIZE, y + ENTITY_SIZE),
                     (x + ENTITY_SIZE, y + ENTITY_SIZE))\<rparr>)"

section \<open>Virtual images (namespace Virtual, virtual.ts)\<close>

datatype OriginalType = PlayerT | EntityT | MirrorT

record VirtualImage =
  originalId :: string
  originalType :: OriginalType
  position :: vec2
  bounces :: nat
  isVisible :: bool
  mirrorChain :: "string list"
  virtualRoom :: nat
  mirrorData :: "(vec2 \<times> vec2) option"

definition reflectPointAcrossMirror :: "vec2 \<Rightarrow> Mirror \<Rightarrow> vec2" where
  "reflectPointAcrossMirror point mirror =
     (let mirrorDir = vec2_normalize (vec2_sub (m_end mirror) (m_start mirror));
          normal = (- snd mirrorDir, fst mirrorDir);
          toPoint = vec2_sub point (m_start mirror);
          distanceToMirror = vec2_dot toPoint normal
      in vec2_scaleAndAdd point normal (- 2 * distanceToMirror))"

definition reflectMirrorAcrossMirror :: "Mirror \<Rightarrow> Mirror \<Rightarrow> Mirror" where
  "reflectMirrorAcrossMirror mirror reflectingMirror =
     \<lparr>m_id = m_id mirror,
      m_start = reflectPointAcrossMirror (m_start mirror) reflectingMirror,
      m_end = reflectPointAcrossMirror (m_end mirror) reflectingMirror\<rparr>"

definition isPointInBounds :: "vec2 \<Rightarrow> vec2 \<Rightarrow> bool" where
  "isPointInBounds bounds point =
     (let width = fst bounds; height = snd bounds in
      fst point \<ge> - width \<and> fst point \<le> width * 2 \<and>
      snd point \<ge> - height \<and> snd point \<le> height * 2)"

text \<open>The three loops of \<^verbatim>\<open>createVirtualRoom\<close>, one definition each.\<close>

definition playerImages :: "vec2 \<Rightarrow> Scene \<Rightarrow> Mirror \<Rightarrow> nat \<Rightarrow> string list \<Rightarrow> VirtualImage list" where
  "playerImages bounds currentRoomState reflectingMirror roomNumber chain =
     (let virtualPlayer =
            reflectPointAcrossMirror (p_position (player currentRoomState)) reflectingMirror
      in if isPointInBounds bounds virtualPlayer
         then [\<lparr>originalId = ''player'', originalType = PlayerT, position = virtualPlayer,
                 bounces = roomNumber, isVisible = True,
                 mirrorChain = chain @ [m_id reflectingMirror],
                 virtualRoom = roomNumber, mirrorData = None\<rparr>]
         else [])"

definition entityImage :: "vec2 \<Rightarrow> Mirror \<Rightarrow> nat \<Rightarrow> string list \<Rightarrow> Entity \<Rightarrow> VirtualImage list" where
  "entityImage bounds reflectingMirror roomNumber chain ent =
     (let virtualEntity = reflectPointAcrossMirror (e_position ent) reflectingMirror
      in if isPointInBounds bounds virtualEntity
         then [\<lparr>originalId = e_id ent, originalType = EntityT, position = virtualEntity,
                 bounces = roomNumber, isVisible = True,
                 mirrorChain = chain @ [m_id reflectingMirror],
                 virtualRoom = roomNumber, mirrorData = None\<rparr>]
         else [])"

definition mirrorImage :: "vec2 \<Rightarrow> Mirror \<Rightarrow> nat \<Rightarrow> string list \<Rightarrow> Mirror \<Rightarrow> VirtualImage list" where
  "mirrorImage bounds reflectingMirror roomNumber chain mirror =
     (let virtualMirror = reflectMirrorAcrossMirror mirror reflectingMirror;
          mirrorCenter = vec2_scale (vec2_add (m_start virtualMirror) (m_end virtualMirror)) (1 / 2)
      in if isPointInBounds bounds (m_start virtualMirror) \<or>
            isPointInBounds bounds (m_end virtualMirror) \<or>
            isPointInBounds bounds mirrorCenter
         then [\<lparr>originalId = m_id mirror, originalType = MirrorT, position = mirrorCenter,
                 bounces = roomNumber, isVisible = True,
                 mirrorChain = chain @ [m_id reflectingMirror],
                 virtualRoom = roomNumber,
                 mirrorData = Some (m_start virtualMirror, m_end virtualMirror)\<rparr>]
         else [])"

definition createVirtualRoom :: "vec2 \<Rightarrow> Scene \<Rightarrow> Mirror \<Rightarrow> nat \<Rightarrow> string list \<Rightarrow> VirtualImage list" where
  "createVirtualRoom bounds currentRoomState reflectingMirror roomNumber chain =
     playerImages bounds currentRoomState reflectingMirror roomNumber chain @
     concat (map (entityImage bounds reflectingMirror roomNumber chain)
                 (entities currentRoomState)) @
     concat (map (mirrorImage bounds reflectingMirror roomNumber chain)
                 (mirrors currentRoomState))"

definition nextRoom :: "Scene \<Rightarrow> Mirror \<Rightarrow> Scene" where
  "nextRoom currentRoom mirror =
     \<lparr>player = (player currentRoom)
          \<lparr>p_position := reflectPointAcrossMirror (p_position (player currentRoom)) mirror\<rparr>,
      entities = map (\<lambda>ent. ent\<lparr>e_position := reflectPointAcrossMirror (e_position ent) mirror\<rparr>)
                     (entities currentRoom),
      mirrors = map (\<lambda>m. reflectMirrorAcrossMirror m mirror) (mirrors currentRoom)\<rparr>"

text \<open>
  The loop over \<^verbatim>\<open>originalMirrors\<close> appends, for every mirror whose id is not in the
  chain, the images of its room and then the images of the nested rooms. The recursion
  is not structural: it ends because every call adds a new mirror id to the chain.
\<close>

function calculateVirtualRoomsRecursive ::
  "vec2 \<Rightarrow> Scene \<Rightarrow> Mirror list \<Rightarrow> nat \<Rightarrow> string list \<Rightarrow> VirtualImage list" where
  "calculateVirtualRoomsRecursive bounds currentRoom originalMirrors roomNumber chain =
     concat (map (\<lambda>mirror.
        if m_id mirror \<in> set chain then []
        else createVirtualRoom bounds currentRoom mirror roomNumber chain @
             calculateVirtualRoomsRecursive bounds (nextRoom currentRoom mirror)
               originalMirrors (roomNumber + 1) (chain @ [m_id mirror]))
       originalMirrors)"
  by pat_completeness auto
termination
proof (relation "measure (\<lambda>(bounds, room, om, n, chain). card (set (map m_id om) - set chain))")
  show "wf (measure (\<lambda>(bounds, room, om, n, chain). card (set (map m_id om) - set chain)))"
    by simp
next
  fix bounds :: vec2 and currentRoom :: Scene and originalMirrors :: "Mirror list"
    and roomNumber :: nat and chain :: "string list" and mirror :: Mirror
  assume mem: "mirror \<in> set originalMirrors" and fresh: "m_id mirror \<notin> set chain"
  have "set (map m_id originalMirrors) - set (chain @ [m_id mirror])
          \<subset> set (map m_id originalMirrors) - set chain"
    using mem fresh by auto
  then have "card (set (map m_id originalMirrors) - set (chain @ [m_id mirror]))
          < card (set (map m_id originalMirrors) - set chain)"
    by (intro psubset_card_mono) simp_all
  then show "((bounds, nextRoom currentRoom mirror, originalMirrors, roomNumber + 1,
               chain @ [m_id mirror]),
              (bounds, currentRoom, originalMirrors, roomNumber, chain))
             \<in> measure (\<lambda>(bounds, room, om, n, chain). card (set (map m_id om) - set chain))"
    by simp
qed

definition calculateVirtualImages :: "Scene \<Rightarrow> vec2 \<Rightarrow> VirtualImage list" where
  "calculateVirtualImages scene bounds =
     calculateVirtualRoomsRecursive bounds
       \<lparr>player = player scene, entities = entities scene, mirrors = mirrors scene\<rparr>
       (mirrors scene) 1 []"

text \<open>
  The same recursion with a budget of nested calls: \<open>None\<close> is returned when a recursive
  call would be needed and the budget \<open>d\<close> is used up. It is used to state the bound on
  the recursion depth.
\<close>

primrec calculateVirtualRoomsBounded ::
  "nat \<Rightarrow> vec2 \<Rightarrow> Scene \<Rightarrow> Mirror list \<Rightarrow> nat \<Rightarrow> string list \<Rightarrow> VirtualImage list option" where
  "calculateVirtualRoomsBounded 0 bounds currentRoom originalMirrors roomNumber chain =
     map_option concat (those (map (\<lambda>mirror.
        if m_id mirror \<in> set chain then Some [] else None)
       originalMirrors))"
| "calculateVirtualRoomsBounded (Suc d) bounds currentRoom originalMirrors roomNumber chain =
     map_option concat (those (map (\<lambda>mirror.
        if m_id mirror \<in> set chain then Some []
        else map_option (\<lambda>nested. createVirtualRoom bounds currentRoom mirror roomNumber chain @ nested)
               (calculateVirtualRoomsBounded d bounds (nextRoom currentRoom mirror)
                  originalMirrors (roomNumber + 1) (chain @ [m_id mirror])))
       originalMirrors))"

section \<open>The ray tracer (namespace Ray)\<close>

record Ray =
  r_origin :: vec2
  r_direction :: vec2
  r_history :: "vec2 list"
  r_entityId :: "string option"

record Intersection =
  i_point :: vec2
  i_distance :: real
  i_normal :: vec2
  i_mirrorId :: "string option"
  i_entityId :: "string option"

definition EPSILON :: real where
  "EPSILON = 1 / 1000000"

definition MAX_BOUNCES :: nat where
  "MAX_BOUNCES = 10"

text \<open>
  An optional string in a condition: \<^verbatim>\<open>undefined\<close> and the empty string are falsy.
\<close>

definition truthy :: "string option \<Rightarrow> bool" where
  "truthy s = (case s of None \<Rightarrow> False | Some x \<Rightarrow> x \<noteq> [])"

definition rayLineIntersection :: "vec2 \<Rightarrow> vec2 \<Rightarrow> vec2 \<Rightarrow> vec2 \<Rightarrow> Intersection option" where
  "rayLineIntersection rayOrigin rayDirection lineStart lineEnd =
     (let lineDir = vec2_sub lineEnd lineStart;
          rayToLineStart = vec2_sub lineStart rayOrigin;
          cross1 = fst rayDirection * snd lineDir - snd rayDirection * fst lineDir
      in if \<bar>cross1\<bar> < EPSILON then None
         else
           let cross2 = fst rayToLineStart * snd lineDir - snd rayToLineStart * fst lineDir;
               t = cross2 / cross1
           in if t < EPSILON then None
              else
                let cross3 = fst rayToLineStart * snd rayDirection
                             - snd rayToLineStart * fst rayDirection;
                    u = cross3 / cross1
                in if u < 0 \<or> u > 1 then None
                   else Some \<lparr>i_point = vec2_scaleAndAdd rayOrigin rayDirection t,
                              i_distance = t,
                              i_normal = vec2_normalize (- snd lineDir, fst lineDir),
                              i_mirrorId = None, i_entityId = None\<rparr>)"

definition rayCircleIntersection :: "vec2 \<Rightarrow> vec2 \<Rightarrow> vec2 \<Rightarrow> real \<Rightarrow> Intersection option" where
  "rayCircleIntersection rayOrigin rayDirection center radius =
     (let toCenter = vec2_sub center rayOrigin;
          projLength = vec2_dot toCenter rayDirection
      in if projLength < 0 then None
         else
           let projection = vec2_scale rayDirection projLength;
               closestPoint = vec2_add rayOrigin projection;
               distanceToCenter = vec2_distance closestPoint center
           in if distanceToCenter > radius then None
              else
                let halfChord = sqrt (radius * radius - distanceToCenter * distanceToCenter);
                    intersectionDistance = projLength - halfChord
                in if intersectionDistance < EPSILON then None
                   else
                     let intersection = vec2_scaleAndAdd rayOrigin rayDirection intersectionDistance
                     in Some \<lparr>i_point = intersection,
                               i_distance = intersectionDistance,
                               i_normal = vec2_normalize (vec2_sub intersection center),
                               i_mirrorId = None, i_entityId = None\<rparr>)"

definition reflect :: "vec2 \<Rightarrow> vec2 \<Rightarrow> vec2" where
  "reflect direction normal = vec2_scaleAndAdd direction normal (- 2 * vec2_dot direction normal)"

text \<open>
  \<^verbatim>\<open>rayTriangleIntersection\<close> tries the edges \<open>(v0, v1)\<close>, \<open>(v1, v2)\<close>, \<open>(v2, v0)\<close> in this
  order and returns at the first edge that is hit, with a normal computed from the
  winding of the triangle.
\<close>

definition triangleNormal :: "vec2 \<Rightarrow> vec2 \<Rightarrow> vec2 \<Rightarrow> vec2" where
  "triangleNormal v0 v1 v2 =
     (let edge1 = vec2_sub v1 v0;
          edge2 = vec2_sub v2 v0;
          cross = fst edge1 * snd edge2 - snd edge1 * fst edge2
      in vec2_normalize
           (if cross > 0 then (snd edge2 - snd edge1, fst edge1 - fst edge2)
            else (snd edge1 - snd edge2, fst edge2 - fst edge1)))"

fun firstEdgeHit :: "vec2 \<Rightarrow> vec2 \<Rightarrow> (vec2 \<times> vec2) list \<Rightarrow> Intersection option" where
  "firstEdgeHit rayOrigin rayDirection [] = None"
| "firstEdgeHit rayOrigin rayDirection ((edgeStart, edgeEnd) # edges) =
     (case rayLineIntersection rayOrigin rayDirection edgeStart edgeEnd of
        Some edgeIntersection \<Rightarrow> Some edgeIntersection
      | None \<Rightarrow> firstEdgeHit rayOrigin rayDirection edges)"

definition triangleEdges :: "vec2 \<times> vec2 \<times> vec2 \<Rightarrow> (vec2 \<times> vec2) list" where
  "triangleEdges vertices =
     (case vertices of (v0, v1, v2) \<Rightarrow> [(v0, v1), (v1, v2), (v2, v0)])"

definition rayTriangleIntersection :: "vec2 \<Rightarrow> vec2 \<Rightarrow> vec2 \<times> vec2 \<times> vec2 \<Rightarrow> Intersection option" where
  "rayTriangleIntersection rayOrigin rayDirection vertices =
     (case vertices of (v0, v1, v2) \<Rightarrow>
        (case firstEdgeHit rayOrigin rayDirection (triangleEdges vertices) of
           None \<Rightarrow> None
         | Some edgeIntersection \<Rightarrow>
             Some \<lparr>i_point = i_point edgeIntersection,
                   i_distance = i_distance edgeIntersection,
                   i_normal = triangleNormal v0 v1 v2,
                   i_mirrorId = None, i_entityId = None\<rparr>))"

text \<open>
  \<^verbatim>\<open>findNearestIntersection\<close> carries \<^verbatim>\<open>nearest\<close> and \<^verbatim>\<open>minDistance\<close> through the mirrors,
  the player and the entities. \<^verbatim>\<open>minDistance\<close> starts at \<^verbatim>\<open>Infinity\<close>, which is \<open>None\<close>
  here: every distance is below it.
\<close>

type_synonym nearestState = "Intersection option \<times> real option"

definition belowMin :: "real \<Rightarrow> real option \<Rightarrow> bool" where
  "belowMin d minDistance = (case minDistance of None \<Rightarrow> True | Some m \<Rightarrow> d < m)"

definition mirrorStep :: "vec2 \<Rightarrow> vec2 \<Rightarrow> nearestState \<Rightarrow> Mirror \<Rightarrow> nearestState" where
  "mirrorStep rayOrigin rayDirection st mirror =
     (case rayLineIntersection rayOrigin rayDirection (m_start mirror) (m_end mirror) of
        None \<Rightarrow> st
      | Some intersection \<Rightarrow>
          if belowMin (i_distance intersection) (snd st)
          then (Some (intersection\<lparr>i_mirrorId := Some (m_id mirror)\<rparr>),
                Some (i_distance intersection))
          else st)"

definition playerStep :: "vec2 \<Rightarrow> vec2 \<Rightarrow> nearestState \<Rightarrow> Player \<Rightarrow> nearestState" where
  "playerStep rayOrigin rayDirection st pl =
     (case rayCircleIntersection rayOrigin rayDirection (p_position pl) PLAYER_RADIUS of
        None \<Rightarrow> st
      | Some playerIntersection \<Rightarrow>
          if belowMin (i_distance playerIntersection) (snd st)
          then (Some playerIntersection, Some (i_distance playerIntersection))
          else st)"

definition entityStep :: "vec2 \<Rightarrow> vec2 \<Rightarrow> nearestState \<Rightarrow> Entity \<Rightarrow> nearestState" where
  "entityStep rayOrigin rayDirection st ent =
     (case rayTriangleIntersection rayOrigin rayDirection (e_vertices ent) of
        None \<Rightarrow> st
      | Some entityIntersection \<Rightarrow>
          if belowMin (i_distance entityIntersection) (snd st)
          then (Some (entityIntersection\<lparr>i_entityId := Some (e_id ent)\<rparr>),
                Some (i_distance entityIntersection))
          else st)"

definition findNearestIntersection :: "vec2 \<Rightarrow> vec2 \<Rightarrow> Scene \<Rightarrow> bool \<Rightarrow> Intersection option" where
  "findNearestIntersection rayOrigin rayDirection scene ignorePlayer =
     (let st0 = (None, None);
          st1 = foldl (mirrorStep rayOrigin rayDirection) st0 (mirrors scene);
          st2 = (if \<not> ignorePlayer then playerStep rayOrigin rayDirection st1 (player scene)
                 else st1);
          st3 = foldl (entityStep rayOrigin rayDirection) st2 (entities scene)
      in fst st3)"

text \<open>
  The loop of \<^verbatim>\<open>traceRay\<close>. Its state is the ray (whose history grows), the current
  origin and direction, the bounce counter \<^verbatim>\<open>bounces\<close> (here \<open>bounceCount\<close>) and the flag \<^verbatim>\<open>hitMirror\<close>. Leaving the loop
  by \<^verbatim>\<open>break\<close> or by the loop condition returns \<^verbatim>\<open>null\<close>, which is \<open>None\<close>.
\<close>

function traceRayLoop ::
  "Scene \<Rightarrow> nat \<Rightarrow> Ray \<Rightarrow> vec2 \<Rightarrow> vec2 \<Rightarrow> nat \<Rightarrow> bool \<Rightarrow> Ray option" where
  "traceRayLoop scene maxBounces ray currentOrigin currentDirection bounceCount hitMirror =
     (if bounceCount < maxBounces then
        (case findNearestIntersection currentOrigin currentDirection scene True of
           None \<Rightarrow> None
         | Some intersection \<Rightarrow>
             let ray' = ray\<lparr>r_history := r_history ray @ [i_point intersection]\<rparr> in
             if truthy (i_mirrorId intersection) then
               traceRayLoop scene maxBounces ray' (i_point intersection)
                 (reflect currentDirection (i_normal intersection)) (bounceCount + 1) True
             else if hitMirror \<and> truthy (i_entityId intersection) then
               Some (ray'\<lparr>r_entityId := i_entityId intersection\<rparr>)
             else None)
      else None)"
  by pat_completeness auto
termination
  by (relation "measure (\<lambda>(scene, maxBounces, ray, co, cd, bounceCount, hitMirror). maxBounces - bounceCount)")
     auto

definition traceRay :: "vec2 \<Rightarrow> vec2 \<Rightarrow> Scene \<Rightarrow> nat \<Rightarrow> Ray option" where
  "traceRay origin direction scene maxBounces =
     traceRayLoop scene maxBounces
       \<lparr>r_origin = origin, r_direction = direction, r_history = [origin], r_entityId = None\<rparr>
       origin direction 0 False"

text \<open>
  \<^verbatim>\<open>lastIntersection\<close> reads the last element of the history. It is only called on rays
  that passed the test \<^verbatim>\<open>ray.history.length > 1\<close>, so the history is never empty there
  (lemma \<open>rays_history\<close> below).
\<close>

definition lastIntersection :: "Ray \<Rightarrow> vec2" where
  "lastIntersection ray = last (r_history ray)"

definition rayCount :: nat where
  "rayCount = 128"

definition rayAngleDirection :: "nat \<Rightarrow> vec2" where
  "rayAngleDirection i =
     (let angle = (real i / real rayCount) * pi * 2 in (cos angle, sin angle))"

text \<open>The array \<^verbatim>\<open>rays\<close> after the first loop of \<^verbatim>\<open>trace\<close>.\<close>

definition rays :: "Scene \<Rightarrow> Ray list" where
  "rays scene =
     concat (map (\<lambda>i.
        case traceRay (p_position (player scene)) (rayAngleDirection i) scene MAX_BOUNCES of
          None \<Rightarrow> []
        | Some ray \<Rightarrow> if length (r_history ray) > 1 \<and> truthy (r_entityId ray) then [ray] else [])
       [0..<rayCount])"

text \<open>
  The second part of \<^verbatim>\<open>trace\<close>: for every entity the rays with its id, sorted by the
  distance of their last point to the entity, and of these the first. An entity without
  such a ray gives \<^verbatim>\<open>undefined\<close>, which the final \<^verbatim>\<open>filter(Boolean)\<close> drops. The
  comparator is the difference of two keys, so the sort is a stable sort by that key.
\<close>

definition candidates :: "Scene \<Rightarrow> Entity \<Rightarrow> Ray list" where
  "candidates scene ent = filter (\<lambda>ray. r_entityId ray = Some (e_id ent)) (rays scene)"

definition intersectionDistance :: "Entity \<Rightarrow> Ray \<Rightarrow> real" where
  "intersectionDistance ent ray = vec2_distance (lastIntersection ray) (e_position ent)"

definition bestRay :: "Scene \<Rightarrow> Entity \<Rightarrow> Ray option" where
  "bestRay scene ent =
     (case sort_key (intersectionDistance ent) (candidates scene ent) of
        [] \<Rightarrow> None
      | ray # _ \<Rightarrow> Some ray)"

definition trace :: "Scene \<Rightarrow> Ray list" where
  "trace scene = List.map_filter (bestRay scene) (entities scene)"

text \<open>
  A point lies on the segment from \<open>a\<close> to \<open>b\<close> when it is on the line through them and
  between the two ends.
\<close>

definition onSegment :: "vec2 \<Rightarrow> vec2 \<Rightarrow> vec2 \<Rightarrow> bool" where
  "onSegment p a b =
     (let e = vec2_sub b a; w = vec2_sub p a in
      fst e * snd w - snd e * fst w = 0 \<and>
      0 \<le> vec2_dot w e \<and> vec2_dot w e \<le> vec2_dot e e)"

definition onMirror :: "Scene \<Rightarrow> vec2 \<Rightarrow> bool" where
  "onMirror scene p = (\<exists>m \<in> set (mirrors scene). onSegment p (m_start m) (m_end m))"

section \<open>Scenes used in the examples\<close>

text \<open>The preset \<^verbatim>\<open>Scene.Presets.singleMirror\<close>, as the scene builder makes it.\<close>

definition singleMirror :: Scene where
  "singleMirror =
     \<lparr>player = \<lparr>p_position = (400, 300)\<rparr>,
      entities = [entity (350, 250) ''entity_1''],
      mirrors = [\<lparr>m_id = ''mirror_1'', m_start = (300, 200), m_end = (300, 400)\<rparr>]\<rparr>"

text \<open>
  A scene in which the ray of angle 0 meets a mirror and comes back to an entity behind
  the viewer.
\<close>

definition behindScene :: Scene where
  "behindScene =
     \<lparr>player = \<lparr>p_position = (0, 0)\<rparr>,
      entities = [entity (- 20, 0) ''entity_1''],
      mirrors = [\<lparr>m_id = ''mirror_1'', m_start = (10, - 10), m_end = (10, 10)\<rparr>]\<rparr>"

definition behindRay :: Ray where
  "behindRay =
     \<lparr>r_origin = (0, 0), r_direction = (1, 0),
      r_history = [(0, 0), (10, 0), (- 24, 0)], r_entityId = Some ''entity_1''\<rparr>"

text \<open>The preset \<^verbatim>\<open>Scene.Presets.twoMirrors\<close>.\<close>

definition twoMirrors :: Scene where
  "twoMirrors =
     \<lparr>player = \<lparr>p_position = (400, 300)\<rparr>,
      entities = [entity (375, 264) ''entity_1'', entity (400, 250) ''entity_2''],
      mirrors = [\<lparr>m_id = ''mirror_1'', m_start = (300, 200), m_end = (300, 400)\<rparr>,
                 \<lparr>m_id = ''mirror_2'', m_start = (500, 200), m_end = (500, 400)\<rparr>]\<rparr>"



text \<open>A scene without mirrors.\<close>

definition noMirrorScene :: Scene where
  "noMirrorScene =
     \<lparr>player = \<lparr>p_position = (400, 300)\<rparr>,
      entities = [entity (350, 250) ''entity_1''],
      mirrors = []\<rparr>"

section \<open>Properties of the virtual image generator\<close>

declare calculateVirtualRoomsRecursive.simps [simp del]
declare traceRayLoop.simps [simp del]

subsection \<open>Reflection\<close>

lemma normalize_unit:
  assumes "a \<noteq> (0, 0)"
  shows "fst (vec2_normalize a) * fst (vec2_normalize a) + snd (vec2_normalize a) * snd (vec2_normalize a) = 1"
proof -
  obtain x y where a: "a = (x, y)" by (cases a)
  define S where "S = x * x + y * y"
  define L where "L = sqrt S"
  have "x \<noteq> 0 \<or> y \<noteq> 0" using assms a by simp
  then have pos: "S > 0" unfolding S_def
    by (metis add_pos_nonneg add_nonneg_pos mult_eq_0_iff not_real_square_gt_zero zero_le_square)
  then have Lpos: "L > 0" and LL: "L * L = S" unfolding L_def by simp_all
  have n: "vec2_normalize a = (x * (1 / L), y * (1 / L))"
    using pos by (simp add: vec2_normalize_def a Let_def S_def[symmetric] L_def)
  have "(x * (1 / L)) * (x * (1 / L)) + (y * (1 / L)) * (y * (1 / L)) = S / (L * L)"
    unfolding S_def using Lpos by (simp add: field_simps)
  also have "\<dots> = 1" using pos LL by simp
  finally show ?thesis by (simp add: n)
qed

lemma reflect_twice_unit:
  fixes nx ny :: real
  assumes "nx * nx + ny * ny = 1"
  shows "(let d = (px - sx) * nx + (py - sy) * ny;
              qx = px + nx * (- 2 * d); qy = py + ny * (- 2 * d);
              d' = (qx - sx) * nx + (qy - sy) * ny
          in (qx + nx * (- 2 * d'), qy + ny * (- 2 * d'))) = (px, py)"
proof -
  define d where "d = (px - sx) * nx + (py - sy) * ny"
  have d': "(px + nx * (- 2 * d) - sx) * nx + (py + ny * (- 2 * d) - sy) * ny = - d"
  proof -
    have "(px + nx * (- 2 * d) - sx) * nx + (py + ny * (- 2 * d) - sy) * ny
          = d - 2 * d * (nx * nx + ny * ny)"
      unfolding d_def by (simp add: algebra_simps)
    then show ?thesis using assms by simp
  qed
  show ?thesis
    unfolding Let_def d_def[symmetric] d' by simp
qed

lemma reflect_normal_form:
  "reflectPointAcrossMirror p m =
     (let dir = vec2_normalize (vec2_sub (m_end m) (m_start m));
          nx = - snd dir; ny = fst dir;
          d = (fst p - fst (m_start m)) * nx + (snd p - snd (m_start m)) * ny
      in (fst p + nx * (- 2 * d), snd p + ny * (- 2 * d)))"
  by (simp add: reflectPointAcrossMirror_def Let_def vec2_sub_def vec2_dot_def vec2_scaleAndAdd_def)

text \<open>
  Claim C9. Reflection across a mirror is an involution: for a mirror with distinct
  endpoints, reflecting a point twice across it gives the point back (in real
  arithmetic).
\<close>

theorem reflection_involution:
  "m_start m \<noteq> m_end m \<Longrightarrow> reflectPointAcrossMirror (reflectPointAcrossMirror p m) m = p"
proof -
  assume ne: "m_start m \<noteq> m_end m"
  define dir where "dir = vec2_normalize (vec2_sub (m_end m) (m_start m))"
  define nx where "nx = - snd dir"
  define ny where "ny = fst dir"
  have "vec2_sub (m_end m) (m_start m) \<noteq> (0, 0)"
    using ne by (auto simp: vec2_sub_def prod_eq_iff)
  then have u: "fst dir * fst dir + snd dir * snd dir = 1"
    unfolding dir_def by (rule normalize_unit)
  then have u': "nx * nx + ny * ny = 1" by (simp add: nx_def ny_def)
  have "reflectPointAcrossMirror (reflectPointAcrossMirror p m) m = (fst p, snd p)"
    unfolding reflect_normal_form[of _ m] Let_def dir_def[symmetric] nx_def[symmetric] ny_def[symmetric] fst_conv snd_conv
    using reflect_twice_unit[OF u', of "fst p" "fst (m_start m)" "snd p" "snd (m_start m)"]
    unfolding Let_def .
  then show ?thesis by simp
qed

text \<open>Claim C9 at the mirror of the single-mirror preset and the viewer's position.\<close>

theorem reflection_involution_witness:
  "m_start \<lparr>m_id = ''mirror_1'', m_start = (300, 200), m_end = (300, 400)\<rparr>
     \<noteq> m_end \<lparr>m_id = ''mirror_1'', m_start = (300, 200), m_end = (300, 400)\<rparr> \<and>
   reflectPointAcrossMirror
     (reflectPointAcrossMirror (400, 300)
        \<lparr>m_id = ''mirror_1'', m_start = (300, 200), m_end = (300, 400)\<rparr>)
     \<lparr>m_id = ''mirror_1'', m_start = (300, 200), m_end = (300, 400)\<rparr> = (400, 300)"
  using reflection_involution
    [of "\<lparr>m_id = ''mirror_1'', m_start = (300, 200), m_end = (300, 400)\<rparr>" "(400, 300)"]
  by simp

lemma sqrt_40000: "sqrt 40000 = 200"
  by (rule real_sqrt_unique) simp_all

lemma reflect_mirror_1:
  "reflectPointAcrossMirror (x, y) \<lparr>m_id = i, m_start = (300, 200), m_end = (300, 400)\<rparr>
     = (600 - x, y)"
  by (simp add: reflectPointAcrossMirror_def vec2_normalize_def vec2_sub_def vec2_dot_def
        vec2_scaleAndAdd_def Let_def sqrt_40000)

lemma reflect_mirror_2:
  "reflectPointAcrossMirror (x, y) \<lparr>m_id = i, m_start = (500, 200), m_end = (500, 400)\<rparr>
     = (1000 - x, y)"
  by (simp add: reflectPointAcrossMirror_def vec2_normalize_def vec2_sub_def vec2_dot_def
        vec2_scaleAndAdd_def Let_def sqrt_40000)

subsection \<open>Rooms and chains\<close>

lemma createVirtualRoom_chain:
  "v \<in> set (createVirtualRoom bounds room mirror n chain) \<Longrightarrow>
     mirrorChain v = chain @ [m_id mirror]"
  by (auto simp: createVirtualRoom_def playerImages_def entityImage_def mirrorImage_def Let_def
           split: if_splits)

lemma calc_mem_cases:
  assumes "v \<in> set (calculateVirtualRoomsRecursive bounds room om n chain)"
  obtains mirror where "mirror \<in> set om" "m_id mirror \<notin> set chain"
    "v \<in> set (createVirtualRoom bounds room mirror n chain) \<or>
     v \<in> set (calculateVirtualRoomsRecursive bounds (nextRoom room mirror) om (n + 1)
                 (chain @ [m_id mirror]))"
  using assms
  by (subst (asm) calculateVirtualRoomsRecursive.simps) (auto split: if_splits)

lemma chain_invariant:
  "v \<in> set (calculateVirtualRoomsRecursive bounds room om n chain) \<Longrightarrow>
   distinct chain \<Longrightarrow> set chain \<subseteq> m_id ` set om \<Longrightarrow>
   distinct (mirrorChain v) \<and> set (mirrorChain v) \<subseteq> m_id ` set om"
proof (induction bounds room om n chain rule: calculateVirtualRoomsRecursive.induct)
  case (1 bounds room om n chain)
  from "1.prems"(1) obtain mirror where m: "mirror \<in> set om" "m_id mirror \<notin> set chain"
    and v: "v \<in> set (createVirtualRoom bounds room mirror n chain) \<or>
            v \<in> set (calculateVirtualRoomsRecursive bounds (nextRoom room mirror) om (n + 1)
                        (chain @ [m_id mirror]))"
    by (rule calc_mem_cases)
  have d: "distinct (chain @ [m_id mirror])" using m "1.prems"(2) by simp
  have s: "set (chain @ [m_id mirror]) \<subseteq> m_id ` set om" using m "1.prems"(3) by auto
  from v show ?case
  proof
    assume "v \<in> set (createVirtualRoom bounds room mirror n chain)"
    then have "mirrorChain v = chain @ [m_id mirror]" by (rule createVirtualRoom_chain)
    with d s show ?thesis by simp
  next
    assume "v \<in> set (calculateVirtualRoomsRecursive bounds (nextRoom room mirror) om (n + 1)
                        (chain @ [m_id mirror]))"
    then show ?thesis using "1.IH" m d s by blast
  qed
qed

lemma distinct_ids_length:
  assumes "distinct (xs :: string list)" "set xs \<subseteq> m_id ` set om"
  shows "length xs \<le> length om"
proof -
  have "length xs = card (set xs)" using assms(1) by (simp add: distinct_card)
  also have "\<dots> \<le> card (m_id ` set om)" using assms(2) by (intro card_mono) simp_all
  also have "\<dots> \<le> card (set om)" by (rule card_image_le) simp
  also have "\<dots> \<le> length om" by (rule card_length)
  finally show ?thesis .
qed

lemma calc_single:
  "calculateVirtualRoomsRecursive bounds room [m] n [] =
     createVirtualRoom bounds room m n []"
  by (simp add: calculateVirtualRoomsRecursive.simps[of _ _ "[m]"])

lemma filter_entity_images:
  "filter (\<lambda>v. originalType v = PlayerT) (concat (map (entityImage bounds m n chain) es)) = []"
  by (induction es) (simp_all add: entityImage_def Let_def)

lemma singleMirror_small_bounds:
  "calculateVirtualImages singleMirror (150, 125) =
     [\<lparr>originalId = ''entity_1'', originalType = EntityT, position = (250, 250),
       bounces = 1, isVisible = True, mirrorChain = [''mirror_1''],
       virtualRoom = 1, mirrorData = None\<rparr>,
      \<lparr>originalId = ''mirror_1'', originalType = MirrorT, position = (300, 300),
       bounces = 1, isVisible = True, mirrorChain = [''mirror_1''],
       virtualRoom = 1, mirrorData = Some ((300, 200), (300, 400))\<rparr>]"
  by (simp add: calculateVirtualImages_def singleMirror_def calc_single createVirtualRoom_def
        entity_def entityImage_def playerImages_def mirrorImage_def reflectMirrorAcrossMirror_def
        reflect_mirror_1 isPointInBounds_def vec2_add_def vec2_scale_def Let_def)

lemma singleMirror_spec_bounds:
  "calculateVirtualImages singleMirror (400, 300) =
     [\<lparr>originalId = ''player'', originalType = PlayerT, position = (200, 300),
       bounces = 1, isVisible = True, mirrorChain = [''mirror_1''],
       virtualRoom = 1, mirrorData = None\<rparr>,
      \<lparr>originalId = ''entity_1'', originalType = EntityT, position = (250, 250),
       bounces = 1, isVisible = True, mirrorChain = [''mirror_1''],
       virtualRoom = 1, mirrorData = None\<rparr>,
      \<lparr>originalId = ''mirror_1'', originalType = MirrorT, position = (300, 300),
       bounces = 1, isVisible = True, mirrorChain = [''mirror_1''],
       virtualRoom = 1, mirrorData = Some ((300, 200), (300, 400))\<rparr>]"
  by (simp add: calculateVirtualImages_def singleMirror_def calc_single createVirtualRoom_def
        entity_def entityImage_def playerImages_def mirrorImage_def reflectMirrorAcrossMirror_def
        reflect_mirror_1 isPointInBounds_def vec2_add_def vec2_scale_def Let_def)

lemma room_subset:
  assumes "mirror \<in> set om" "m_id mirror \<notin> set chain"
  shows "set (createVirtualRoom bounds room mirror n chain)
           \<subseteq> set (calculateVirtualRoomsRecursive bounds room om n chain)"
  by (subst calculateVirtualRoomsRecursive.simps) (use assms in auto)

lemma nested_subset:
  assumes "mirror \<in> set om" "m_id mirror \<notin> set chain"
  shows "set (calculateVirtualRoomsRecursive bounds (nextRoom room mirror) om (n + 1)
                (chain @ [m_id mirror]))
           \<subseteq> set (calculateVirtualRoomsRecursive bounds room om n chain)"
  by (subst (2) calculateVirtualRoomsRecursive.simps) (use assms in auto)

subsection \<open>Bounds filtering\<close>

lemma createVirtualRoom_bounds:
  "v \<in> set (createVirtualRoom bounds room mirror n chain) \<Longrightarrow>
     (originalType v \<noteq> MirrorT \<longrightarrow> isPointInBounds bounds (position v)) \<and>
     (originalType v = MirrorT \<longrightarrow>
        (case mirrorData v of
           None \<Rightarrow> False
         | Some (s, e) \<Rightarrow>
             position v = vec2_scale (vec2_add s e) (1 / 2) \<and>
             (isPointInBounds bounds s \<or> isPointInBounds bounds e \<or>
              isPointInBounds bounds (position v))))"
  by (auto simp: createVirtualRoom_def playerImages_def entityImage_def mirrorImage_def Let_def
           split: if_splits)

lemma calc_bounds:
  "v \<in> set (calculateVirtualRoomsRecursive bounds room om n chain) \<Longrightarrow>
     (originalType v \<noteq> MirrorT \<longrightarrow> isPointInBounds bounds (position v)) \<and>
     (originalType v = MirrorT \<longrightarrow>
        (case mirrorData v of
           None \<Rightarrow> False
         | Some (s, e) \<Rightarrow>
             position v = vec2_scale (vec2_add s e) (1 / 2) \<and>
             (isPointInBounds bounds s \<or> isPointInBounds bounds e \<or>
              isPointInBounds bounds (position v))))"
proof (induction bounds room om n chain rule: calculateVirtualRoomsRecursive.induct)
  case (1 bounds room om n chain)
  from "1.prems" obtain mirror where m: "mirror \<in> set om" "m_id mirror \<notin> set chain"
    and v: "v \<in> set (createVirtualRoom bounds room mirror n chain) \<or>
            v \<in> set (calculateVirtualRoomsRecursive bounds (nextRoom room mirror) om (n + 1)
                        (chain @ [m_id mirror]))"
    by (rule calc_mem_cases)
  from v show ?case
  proof
    assume "v \<in> set (createVirtualRoom bounds room mirror n chain)"
    then show ?thesis by (rule createVirtualRoom_bounds)
  next
    assume "v \<in> set (calculateVirtualRoomsRecursive bounds (nextRoom room mirror) om (n + 1)
                        (chain @ [m_id mirror]))"
    then show ?thesis using "1.IH" m by blast
  qed
qed

text \<open>
  Claim C1, as the generator behaves. Every emitted image of the player or of an entity
  has its position inside \<open>[-width, 2*width] \<times> [-height, 2*height]\<close>. An emitted image of
  a mirror carries the reflected endpoints, its position is their midpoint, and at least
  one of the reflected start, the reflected end and the midpoint is inside that rectangle.
\<close>

theorem images_within_bounds:
  "v \<in> set (calculateVirtualImages scene bounds) \<Longrightarrow>
     (originalType v \<noteq> MirrorT \<longrightarrow> isPointInBounds bounds (position v)) \<and>
     (originalType v = MirrorT \<longrightarrow>
        (case mirrorData v of
           None \<Rightarrow> False
         | Some (s, e) \<Rightarrow>
             position v = vec2_scale (vec2_add s e) (1 / 2) \<and>
             (isPointInBounds bounds s \<or> isPointInBounds bounds e \<or>
              isPointInBounds bounds (position v))))"
  unfolding calculateVirtualImages_def by (rule calc_bounds)

text \<open>
  Claim C1 at the single-mirror preset with bounds \<open>(150, 125)\<close> and the image of the
  mirror: its reflected start \<open>(300, 200)\<close> is inside the rectangle.
\<close>

theorem images_within_bounds_witness:
  "calculateVirtualImages singleMirror (150, 125) ! 1
     \<in> set (calculateVirtualImages singleMirror (150, 125)) \<and>
   originalType (calculateVirtualImages singleMirror (150, 125) ! 1) = MirrorT \<and>
   mirrorData (calculateVirtualImages singleMirror (150, 125) ! 1)
     = Some ((300, 200), (300, 400)) \<and>
   isPointInBounds (150, 125) (300, 200)"
  using images_within_bounds
    [of "calculateVirtualImages singleMirror (150, 125) ! 1" singleMirror "(150, 125)"]
  by (simp add: singleMirror_small_bounds isPointInBounds_def)

text \<open>
  Claim C1 as stated fails for mirrors: in the single-mirror preset with bounds
  \<open>(150, 125)\<close> the image of the mirror is emitted because its start \<open>(300, 200)\<close> is
  inside the rectangle \<open>[-150, 300] \<times> [-125, 250]\<close>, and its position, the midpoint
  \<open>(300, 300)\<close>, is outside.
\<close>

theorem mirror_midpoint_outside_bounds:
  "length (calculateVirtualImages singleMirror (150, 125)) = 2 \<and>
   originalType (calculateVirtualImages singleMirror (150, 125) ! 1) = MirrorT \<and>
   position (calculateVirtualImages singleMirror (150, 125) ! 1) = (300, 300) \<and>
   \<not> isPointInBounds (150, 125) (position (calculateVirtualImages singleMirror (150, 125) ! 1))"
  by (simp add: singleMirror_small_bounds isPointInBounds_def)

subsection \<open>A mirror in its own room\<close>

lemma chain_nonempty:
  "v \<in> set (calculateVirtualRoomsRecursive bounds room om n chain) \<Longrightarrow> mirrorChain v \<noteq> []"
proof (induction bounds room om n chain rule: calculateVirtualRoomsRecursive.induct)
  case (1 bounds room om n chain)
  from "1.prems" obtain mirror where m: "mirror \<in> set om" "m_id mirror \<notin> set chain"
    and v: "v \<in> set (createVirtualRoom bounds room mirror n chain) \<or>
            v \<in> set (calculateVirtualRoomsRecursive bounds (nextRoom room mirror) om (n + 1)
                        (chain @ [m_id mirror]))"
    by (rule calc_mem_cases)
  from v show ?case
  proof
    assume "v \<in> set (createVirtualRoom bounds room mirror n chain)"
    then have "mirrorChain v = chain @ [m_id mirror]" by (rule createVirtualRoom_chain)
    then show ?thesis by simp
  next
    assume "v \<in> set (calculateVirtualRoomsRecursive bounds (nextRoom room mirror) om (n + 1)
                        (chain @ [m_id mirror]))"
    then show ?thesis using "1.IH" m by blast
  qed
qed

lemma nextRoom_mirror_ids: "map m_id (mirrors (nextRoom room m)) = map m_id (mirrors room)"
  by (simp add: nextRoom_def reflectMirrorAcrossMirror_def comp_def)

lemma createVirtualRoom_mirror_id:
  "v \<in> set (createVirtualRoom bounds room mirror n chain) \<Longrightarrow> originalType v = MirrorT \<Longrightarrow>
     originalId v \<in> set (map m_id (mirrors room))"
  by (auto simp: createVirtualRoom_def playerImages_def entityImage_def mirrorImage_def Let_def
           split: if_splits)

lemma calc_mirror_id:
  "v \<in> set (calculateVirtualRoomsRecursive bounds room om n chain) \<Longrightarrow>
   originalType v = MirrorT \<Longrightarrow> originalId v \<in> set (map m_id (mirrors room))"
proof (induction bounds room om n chain rule: calculateVirtualRoomsRecursive.induct)
  case (1 bounds room om n chain)
  from "1.prems"(1) obtain mirror where m: "mirror \<in> set om" "m_id mirror \<notin> set chain"
    and v: "v \<in> set (createVirtualRoom bounds room mirror n chain) \<or>
            v \<in> set (calculateVirtualRoomsRecursive bounds (nextRoom room mirror) om (n + 1)
                        (chain @ [m_id mirror]))"
    by (rule calc_mem_cases)
  from v show ?case
  proof
    assume "v \<in> set (createVirtualRoom bounds room mirror n chain)"
    then show ?thesis using "1.prems"(2) by (rule createVirtualRoom_mirror_id)
  next
    assume "v \<in> set (calculateVirtualRoomsRecursive bounds (nextRoom room mirror) om (n + 1)
                        (chain @ [m_id mirror]))"
    then have "originalId v \<in> set (map m_id (mirrors (nextRoom room mirror)))"
      using "1.IH" m "1.prems"(2) by blast
    then show ?thesis by (simp only: nextRoom_mirror_ids)
  qed
qed

lemma distinct_last_fresh:
  assumes "distinct xs" "xs \<noteq> []"
  shows "last xs \<notin> set (butlast xs)"
proof -
  have "distinct (butlast xs @ [last xs])" using assms by simp
  then show ?thesis by simp
qed

lemma twoMirrors_own_image:
  "\<lparr>originalId = ''mirror_2'', originalType = MirrorT, position = (900, 300),
     bounces = 2, isVisible = True, mirrorChain = [''mirror_1'', ''mirror_2''],
     virtualRoom = 2, mirrorData = Some ((900, 200), (900, 400))\<rparr>
   \<in> set (calculateVirtualImages twoMirrors (500, 300))"
proof -
  let ?m1 = "\<lparr>m_id = ''mirror_1'', m_start = (300, 200), m_end = (300, 400)\<rparr>"
  let ?m2 = "\<lparr>m_id = ''mirror_2'', m_start = (500, 200), m_end = (500, 400)\<rparr>"
  let ?m2' = "\<lparr>m_id = ''mirror_2'', m_start = (100, 200), m_end = (100, 400)\<rparr>"
  let ?room = "\<lparr>player = player twoMirrors, entities = entities twoMirrors,
                  mirrors = mirrors twoMirrors\<rparr>"
  let ?v = "\<lparr>originalId = ''mirror_2'', originalType = MirrorT, position = (900, 300),
     bounces = 2, isVisible = True, mirrorChain = [''mirror_1'', ''mirror_2''],
     virtualRoom = 2, mirrorData = Some ((900, 200), (900, 400))\<rparr>"
  have ms: "mirrors twoMirrors = [?m1, ?m2]" by (simp add: twoMirrors_def)
  have ms': "mirrors (nextRoom ?room ?m1) = [?m1, ?m2']"
    by (simp add: nextRoom_def ms reflectMirrorAcrossMirror_def reflect_mirror_1)
  have "mirrorImage (500, 300) ?m2 (1 + 1) ([] @ [m_id ?m1]) ?m2' = [?v]"
    by (simp add: mirrorImage_def reflectMirrorAcrossMirror_def reflect_mirror_2
          isPointInBounds_def vec2_add_def vec2_scale_def Let_def)
  then have "?v \<in> set (concat (map (mirrorImage (500, 300) ?m2 (1 + 1) ([] @ [m_id ?m1]))
                                   (mirrors (nextRoom ?room ?m1))))"
    unfolding ms' by simp
  then have "?v \<in> set (createVirtualRoom (500, 300) (nextRoom ?room ?m1) ?m2 (1 + 1)
                          ([] @ [m_id ?m1]))"
    unfolding createVirtualRoom_def by simp
  moreover have "set (createVirtualRoom (500, 300) (nextRoom ?room ?m1) ?m2 (1 + 1)
                          ([] @ [m_id ?m1]))
      \<subseteq> set (calculateVirtualRoomsRecursive (500, 300) (nextRoom ?room ?m1)
                          [?m1, ?m2] (1 + 1) ([] @ [m_id ?m1]))"
    by (rule room_subset) simp_all
  moreover have "set (calculateVirtualRoomsRecursive (500, 300) (nextRoom ?room ?m1)
                          [?m1, ?m2] (1 + 1) ([] @ [m_id ?m1]))
      \<subseteq> set (calculateVirtualRoomsRecursive (500, 300) ?room [?m1, ?m2] 1 [])"
    by (rule nested_subset) simp_all
  ultimately have "?v \<in> set (calculateVirtualRoomsRecursive (500, 300) ?room [?m1, ?m2] 1 [])"
    by blast
  then show ?thesis by (simp add: calculateVirtualImages_def ms)
qed

text \<open>
  Claim C2, as the generator behaves. What is excluded in the room made by reflecting
  across a mirror \<open>m\<close> is a second use of \<open>m\<close> as the reflecting mirror: in every
  emitted image the chain is not empty, its last id (the mirror that made the room) is
  the id of a mirror of the scene and does not occur earlier in the chain. The mirrors
  that are reflected into the room are not restricted: the original id of a mirror-type
  image is the id of any mirror of the scene, the last id of its chain not excluded.
\<close>

theorem reflecting_mirror_not_reused:
  assumes "v \<in> set (calculateVirtualImages scene bounds)"
  shows "mirrorChain v \<noteq> [] \<and>
         last (mirrorChain v) \<in> set (map m_id (mirrors scene)) \<and>
         last (mirrorChain v) \<notin> set (butlast (mirrorChain v)) \<and>
         (originalType v = MirrorT \<longrightarrow> originalId v \<in> set (map m_id (mirrors scene)))"
proof -
  have mem: "v \<in> set (calculateVirtualRoomsRecursive bounds
               \<lparr>player = player scene, entities = entities scene, mirrors = mirrors scene\<rparr>
               (mirrors scene) 1 [])"
    using assms by (simp add: calculateVirtualImages_def)
  have ne: "mirrorChain v \<noteq> []" using mem by (rule chain_nonempty)
  have inv: "distinct (mirrorChain v) \<and> set (mirrorChain v) \<subseteq> m_id ` set (mirrors scene)"
    using mem by (rule chain_invariant) simp_all
  have "last (mirrorChain v) \<in> set (mirrorChain v)" using ne by simp
  then have l: "last (mirrorChain v) \<in> set (map m_id (mirrors scene))" using inv by auto
  have f: "last (mirrorChain v) \<notin> set (butlast (mirrorChain v))"
    using inv ne by (intro distinct_last_fresh) simp_all
  have "originalId v \<in> set (map m_id (mirrors scene))" if "originalType v = MirrorT"
    using calc_mirror_id[OF mem that] by simp
  then show ?thesis using ne l f by blast
qed

text \<open>
  Claim C2 at the two-mirror preset with the bounds \<open>(500, 300)\<close> and the image of
  \<open>mirror_2\<close> in the room made by reflecting across \<open>mirror_1\<close> and then \<open>mirror_2\<close>.
\<close>

theorem reflecting_mirror_not_reused_witness:
  "\<lparr>originalId = ''mirror_2'', originalType = MirrorT, position = (900, 300),
     bounces = 2, isVisible = True, mirrorChain = [''mirror_1'', ''mirror_2''],
     virtualRoom = 2, mirrorData = Some ((900, 200), (900, 400))\<rparr>
     \<in> set (calculateVirtualImages twoMirrors (500, 300)) \<and>
   ''mirror_2'' \<in> set (map m_id (mirrors twoMirrors)) \<and>
   ''mirror_2'' \<notin> set (butlast [''mirror_1'', ''mirror_2''])"
  using reflecting_mirror_not_reused[OF twoMirrors_own_image] twoMirrors_own_image
  by simp

text \<open>
  Claim C2 as stated fails: in the single-mirror preset the third image is the image
  of \<open>mirror_1\<close> in the room made by reflecting across \<open>mirror_1\<close>.
\<close>

theorem mirror_reflected_across_itself:
  "length (calculateVirtualImages singleMirror (400, 300)) = 3 \<and>
   originalType (calculateVirtualImages singleMirror (400, 300) ! 2) = MirrorT \<and>
   mirrorChain (calculateVirtualImages singleMirror (400, 300) ! 2) = [''mirror_1''] \<and>
   originalId (calculateVirtualImages singleMirror (400, 300) ! 2)
     = last (mirrorChain (calculateVirtualImages singleMirror (400, 300) ! 2))"
  by (simp add: singleMirror_spec_bounds)

subsection \<open>Chains\<close>

text \<open>
  Claim C5. The mirror chain of every emitted image has no repeated mirror id, and it is
  no longer than the number of mirrors of the scene.
\<close>

theorem chain_unique_and_bounded:
  "v \<in> set (calculateVirtualImages scene bounds) \<Longrightarrow>
     distinct (mirrorChain v) \<and> length (mirrorChain v) \<le> length (mirrors scene)"
proof -
  assume "v \<in> set (calculateVirtualImages scene bounds)"
  then have "distinct (mirrorChain v) \<and> set (mirrorChain v) \<subseteq> m_id ` set (mirrors scene)"
    unfolding calculateVirtualImages_def by (rule chain_invariant) simp_all
  then show ?thesis using distinct_ids_length by blast
qed

text \<open>Claim C5 at the image of the player in the single-mirror preset.\<close>

theorem chain_unique_and_bounded_witness:
  "calculateVirtualImages singleMirror (400, 300) ! 0
     \<in> set (calculateVirtualImages singleMirror (400, 300)) \<and>
   distinct (mirrorChain (calculateVirtualImages singleMirror (400, 300) ! 0)) \<and>
   length (mirrorChain (calculateVirtualImages singleMirror (400, 300) ! 0))
     \<le> length (mirrors singleMirror)"
  using chain_unique_and_bounded
    [of "calculateVirtualImages singleMirror (400, 300) ! 0" singleMirror "(400, 300)"]
  by (simp add: singleMirror_spec_bounds)

subsection \<open>Termination and recursion depth\<close>

lemma those_map_Some:
  "(\<And>x. x \<in> set xs \<Longrightarrow> f x = Some (g x)) \<Longrightarrow> those (map f xs) = Some (map g xs)"
  by (induction xs) simp_all

lemma bounded_eq:
  "distinct chain \<Longrightarrow> set chain \<subseteq> m_id ` set om \<Longrightarrow>
   card (m_id ` set om) \<le> length chain + d \<Longrightarrow>
   calculateVirtualRoomsBounded d bounds room om n chain =
     Some (calculateVirtualRoomsRecursive bounds room om n chain)"
proof (induction d arbitrary: room n chain)
  case 0
  have "card (m_id ` set om) \<le> card (set chain)"
    using "0.prems" by (simp add: distinct_card)
  then have "set chain = m_id ` set om"
    using "0.prems"(2) by (intro card_seteq) simp_all
  then have all: "\<And>x. x \<in> set om \<Longrightarrow> m_id x \<in> set chain" by simp
  have a: "those (map (\<lambda>mirror. if m_id mirror \<in> set chain then Some [] else None) om)
          = Some (map (\<lambda>mirror. []) om)"
    by (rule those_map_Some) (simp add: all)
  have b: "calculateVirtualRoomsRecursive bounds room om n chain
          = concat (map (\<lambda>mirror. []) om)"
    by (subst calculateVirtualRoomsRecursive.simps) (simp add: all cong: map_cong)
  show ?case unfolding calculateVirtualRoomsBounded.simps a b by simp
next
  case (Suc d)
  let ?g = "\<lambda>mirror. if m_id mirror \<in> set chain then []
        else createVirtualRoom bounds room mirror n chain @
             calculateVirtualRoomsRecursive bounds (nextRoom room mirror)
               om (n + 1) (chain @ [m_id mirror])"
  have a: "those (map (\<lambda>mirror.
        if m_id mirror \<in> set chain then Some []
        else map_option (\<lambda>nested. createVirtualRoom bounds room mirror n chain @ nested)
               (calculateVirtualRoomsBounded d bounds (nextRoom room mirror)
                  om (n + 1) (chain @ [m_id mirror]))) om) = Some (map ?g om)"
  proof (rule those_map_Some)
    fix x assume x: "x \<in> set om"
    show "(if m_id x \<in> set chain then Some []
        else map_option (\<lambda>nested. createVirtualRoom bounds room x n chain @ nested)
               (calculateVirtualRoomsBounded d bounds (nextRoom room x)
                  om (n + 1) (chain @ [m_id x]))) = Some (?g x)"
    proof (cases "m_id x \<in> set chain")
      case True
      then show ?thesis by simp
    next
      case False
      have "calculateVirtualRoomsBounded d bounds (nextRoom room x) om (n + 1) (chain @ [m_id x])
            = Some (calculateVirtualRoomsRecursive bounds (nextRoom room x) om (n + 1) (chain @ [m_id x]))"
        using False x Suc.prems by (intro Suc.IH) auto
      then show ?thesis using False by simp
    qed
  qed
  have b: "calculateVirtualRoomsRecursive bounds room om n chain = concat (map ?g om)"
    by (subst calculateVirtualRoomsRecursive.simps) simp
  show ?case unfolding calculateVirtualRoomsBounded.simps a b by simp
qed

text \<open>
  Claim C6. \<open>calculateVirtualImages\<close> terminates on every scene: the recursion is a total
  function (its termination proof uses the number of mirror ids not yet in the chain),
  and for a scene with \<open>M\<close> mirrors a budget of \<open>M\<close> nested recursive calls is enough
  to compute the whole result.
\<close>

theorem depth_bounded_by_mirror_count:
  "calculateVirtualRoomsBounded (length (mirrors scene)) bounds
     \<lparr>player = player scene, entities = entities scene, mirrors = mirrors scene\<rparr>
     (mirrors scene) 1 [] = Some (calculateVirtualImages scene bounds)"
proof -
  have "card (m_id ` set (mirrors scene)) \<le> length (mirrors scene)"
    by (meson card_image_le card_length le_trans List.finite_set)
  then show ?thesis
    unfolding calculateVirtualImages_def by (intro bounded_eq) simp_all
qed

subsection \<open>The single-mirror scenario\<close>

text \<open>
  Claim C7. For the viewer at \<open>(400, 300)\<close>, the single mirror \<open>mirror_1\<close> from
  \<open>(300, 200)\<close> to \<open>(300, 400)\<close> and the bounds \<open>(400, 300)\<close>, whatever the entities are,
  the result has exactly one image of type player; its bounce count is 1, its chain is
  \<open>[mirror_1]\<close> and its position is \<open>(200, 300)\<close>.
\<close>

theorem single_mirror_player_image:
  "filter (\<lambda>v. originalType v = PlayerT)
     (calculateVirtualImages
        \<lparr>player = \<lparr>p_position = (400, 300)\<rparr>, entities = es,
         mirrors = [\<lparr>m_id = ''mirror_1'', m_start = (300, 200), m_end = (300, 400)\<rparr>]\<rparr>
        (400, 300))
   = [\<lparr>originalId = ''player'', originalType = PlayerT, position = (200, 300),
       bounces = 1, isVisible = True, mirrorChain = [''mirror_1''],
       virtualRoom = 1, mirrorData = None\<rparr>]"
  by (simp add: calculateVirtualImages_def calc_single createVirtualRoom_def
        filter_entity_images playerImages_def mirrorImage_def reflectMirrorAcrossMirror_def
        reflect_mirror_1 isPointInBounds_def vec2_add_def vec2_scale_def Let_def)

section \<open>Properties of the ray tracer\<close>

subsection \<open>Intersections\<close>

text \<open>
  A hit returned by \<open>rayLineIntersection\<close> lies on the segment: the hit point is
  \<open>lineStart + u * lineDir\<close> for the parameter \<open>u\<close> that the function has checked to be
  in \<open>[0, 1]\<close>.
\<close>

lemma rayLineIntersection_point:
  assumes "rayLineIntersection ro rd a b = Some i"
  shows "onSegment (i_point i) a b" and "i_mirrorId i = None" and "i_entityId i = None"
proof -
  define ex where "ex = fst b - fst a"
  define ey where "ey = snd b - snd a"
  define wx where "wx = fst a - fst ro"
  define wy where "wy = snd a - snd ro"
  define dx where "dx = fst rd"
  define dy where "dy = snd rd"
  define c1 where "c1 = dx * ey - dy * ex"
  define t where "t = (wx * ey - wy * ex) / c1"
  define u where "u = (wx * dy - wy * dx) / c1"
  from assms have c1: "\<not> \<bar>c1\<bar> < EPSILON" and u: "0 \<le> u" "u \<le> 1"
    and i: "i = \<lparr>i_point = (fst ro + dx * t, snd ro + dy * t), i_distance = t,
                 i_normal = vec2_normalize (- ey, ex), i_mirrorId = None, i_entityId = None\<rparr>"
    by (auto simp: rayLineIntersection_def Let_def vec2_sub_def vec2_scaleAndAdd_def
          ex_def ey_def wx_def wy_def dx_def dy_def c1_def t_def u_def split: if_splits)
  from i show "i_mirrorId i = None" and "i_entityId i = None" by simp_all
  have nz: "c1 \<noteq> 0" using c1 by (auto simp: EPSILON_def)
  have px: "fst ro + dx * t - fst a = u * ex"
  proof -
    have "(fst ro + dx * t - fst a) * c1 = - wx * c1 + dx * (t * c1)"
      by (simp add: wx_def algebra_simps)
    also have "t * c1 = wx * ey - wy * ex" using nz by (simp add: t_def)
    also have "- wx * c1 + dx * (wx * ey - wy * ex) = (wx * dy - wy * dx) * ex"
      by (simp add: c1_def algebra_simps)
    also have "wx * dy - wy * dx = u * c1" using nz by (simp add: u_def)
    finally have "(fst ro + dx * t - fst a) * c1 = (u * ex) * c1" by (simp add: algebra_simps)
    then show ?thesis using nz by simp
  qed
  have py: "snd ro + dy * t - snd a = u * ey"
  proof -
    have "(snd ro + dy * t - snd a) * c1 = - wy * c1 + dy * (t * c1)"
      by (simp add: wy_def algebra_simps)
    also have "t * c1 = wx * ey - wy * ex" using nz by (simp add: t_def)
    also have "- wy * c1 + dy * (wx * ey - wy * ex) = (wx * dy - wy * dx) * ey"
      by (simp add: c1_def algebra_simps)
    also have "wx * dy - wy * dx = u * c1" using nz by (simp add: u_def)
    finally have "(snd ro + dy * t - snd a) * c1 = (u * ey) * c1" by (simp add: algebra_simps)
    then show ?thesis using nz by simp
  qed
  have sq: "0 \<le> ex * ex + ey * ey" by simp
  have dot: "(u * ex) * ex + (u * ey) * ey = u * (ex * ex + ey * ey)"
    by (simp add: algebra_simps)
  have lo: "0 \<le> u * (ex * ex + ey * ey)" using u(1) sq by (rule mult_nonneg_nonneg)
  have hi: "u * (ex * ex + ey * ey) \<le> ex * ex + ey * ey"
    using mult_right_mono[OF u(2) sq] by simp
  show "onSegment (i_point i) a b"
    unfolding onSegment_def Let_def vec2_sub_def vec2_dot_def i
    using lo hi by (simp add: px py dot ex_def[symmetric] ey_def[symmetric])
qed

lemma rayTriangleIntersection_untagged:
  "rayTriangleIntersection ro rd vs = Some i \<Longrightarrow> i_mirrorId i = None"
  by (auto simp: rayTriangleIntersection_def split: prod.splits option.splits)

lemma rayCircleIntersection_untagged:
  "rayCircleIntersection ro rd c r = Some i \<Longrightarrow> i_mirrorId i = None"
  by (auto simp: rayCircleIntersection_def Let_def split: if_splits)

lemma mirrorStep_inv:
  assumes "m \<in> set (mirrors scene)"
    and "\<And>i. fst st = Some i \<Longrightarrow> i_mirrorId i \<noteq> None \<Longrightarrow> onMirror scene (i_point i)"
    and "fst (mirrorStep ro rd st m) = Some i" and "i_mirrorId i \<noteq> None"
  shows "onMirror scene (i_point i)"
proof (cases "rayLineIntersection ro rd (m_start m) (m_end m)")
  case None
  then show ?thesis using assms by (simp add: mirrorStep_def)
next
  case (Some j)
  show ?thesis
  proof (cases "belowMin (i_distance j) (snd st)")
    case True
    then have "i = j\<lparr>i_mirrorId := Some (m_id m)\<rparr>"
      using assms(3) Some by (simp add: mirrorStep_def)
    then have "i_point i = i_point j" by simp
    moreover have "onSegment (i_point j) (m_start m) (m_end m)"
      using Some by (rule rayLineIntersection_point)
    ultimately show ?thesis using assms(1) unfolding onMirror_def by auto
  next
    case False
    then show ?thesis using assms Some by (simp add: mirrorStep_def)
  qed
qed

lemma mirrorStep_fold_inv:
  "set ms \<subseteq> set (mirrors scene) \<Longrightarrow>
   (\<And>i. fst st = Some i \<Longrightarrow> i_mirrorId i \<noteq> None \<Longrightarrow> onMirror scene (i_point i)) \<Longrightarrow>
   fst (foldl (mirrorStep ro rd) st ms) = Some i \<Longrightarrow> i_mirrorId i \<noteq> None \<Longrightarrow>
   onMirror scene (i_point i)"
proof (induction ms arbitrary: st)
  case Nil
  then show ?case by simp
next
  case (Cons m ms)
  have m: "m \<in> set (mirrors scene)" and ms: "set ms \<subseteq> set (mirrors scene)"
    using Cons.prems(1) by simp_all
  have step: "\<And>j. fst (mirrorStep ro rd st m) = Some j \<Longrightarrow> i_mirrorId j \<noteq> None \<Longrightarrow>
               onMirror scene (i_point j)"
    using mirrorStep_inv[OF m] Cons.prems(2) by blast
  show ?case
    using Cons.IH[OF ms step] Cons.prems(3,4) by simp
qed

lemma playerStep_inv:
  assumes "\<And>i. fst st = Some i \<Longrightarrow> i_mirrorId i \<noteq> None \<Longrightarrow> onMirror scene (i_point i)"
    and "fst (playerStep ro rd st pl) = Some i" and "i_mirrorId i \<noteq> None"
  shows "onMirror scene (i_point i)"
  using assms
  by (auto simp: playerStep_def split: option.splits if_splits
           dest: rayCircleIntersection_untagged)

lemma entityStep_inv:
  assumes "\<And>i. fst st = Some i \<Longrightarrow> i_mirrorId i \<noteq> None \<Longrightarrow> onMirror scene (i_point i)"
    and "fst (entityStep ro rd st ent) = Some i" and "i_mirrorId i \<noteq> None"
  shows "onMirror scene (i_point i)"
  using assms
  by (auto simp: entityStep_def split: option.splits if_splits
           dest: rayTriangleIntersection_untagged)

lemma entityStep_fold_inv:
  "(\<And>i. fst st = Some i \<Longrightarrow> i_mirrorId i \<noteq> None \<Longrightarrow> onMirror scene (i_point i)) \<Longrightarrow>
   fst (foldl (entityStep ro rd) st es) = Some i \<Longrightarrow> i_mirrorId i \<noteq> None \<Longrightarrow>
   onMirror scene (i_point i)"
proof (induction es arbitrary: st)
  case Nil
  then show ?case by simp
next
  case (Cons e es)
  have step: "\<And>j. fst (entityStep ro rd st e) = Some j \<Longrightarrow> i_mirrorId j \<noteq> None \<Longrightarrow>
               onMirror scene (i_point j)"
    using entityStep_inv Cons.prems(1) by blast
  show ?case
    using Cons.IH[OF step] Cons.prems(2,3) by simp
qed

lemma findNearestIntersection_mirror:
  assumes "findNearestIntersection ro rd scene ignorePlayer = Some i"
    and "i_mirrorId i \<noteq> None"
  shows "onMirror scene (i_point i)"
proof -
  define st1 where "st1 = foldl (mirrorStep ro rd) (None, None) (mirrors scene)"
  define st2 where "st2 = (if \<not> ignorePlayer then playerStep ro rd st1 (player scene) else st1)"
  have inv1: "\<And>j. fst st1 = Some j \<Longrightarrow> i_mirrorId j \<noteq> None \<Longrightarrow> onMirror scene (i_point j)"
    unfolding st1_def by (rule mirrorStep_fold_inv[of "mirrors scene" scene "(None, None)"]) simp_all
  have inv2: "\<And>j. fst st2 = Some j \<Longrightarrow> i_mirrorId j \<noteq> None \<Longrightarrow> onMirror scene (i_point j)"
    unfolding st2_def using inv1 playerStep_inv[of st1 scene ro rd "player scene"]
    by (cases ignorePlayer) auto
  have fin: "fst (foldl (entityStep ro rd) st2 (entities scene)) = Some i"
    using assms(1) unfolding findNearestIntersection_def Let_def st1_def st2_def
    by (cases ignorePlayer) simp_all
  show ?thesis
    by (rule entityStep_fold_inv[of st2 scene ro rd "entities scene" i, OF inv2 fin assms(2)])
qed

subsection \<open>The loop of traceRay\<close>

text \<open>
  A returned ray has the history it started with, then the points of the mirror hits of
  the remaining iterations, then the point of the entity hit. The loop has run at least
  one mirror iteration when the flag was not set at the start, and the counter stays
  below the limit.
\<close>

lemma truthy_Some: "truthy s \<Longrightarrow> s \<noteq> None"
  by (cases s) (simp_all add: truthy_def)

lemma traceRayLoop_shape:
  "traceRayLoop scene maxBounces ray co cd bounceCount hitMirror = Some r \<Longrightarrow>
     \<exists>ms e. r_history r = r_history ray @ ms @ [e] \<and>
            r_origin r = r_origin ray \<and> r_direction r = r_direction ray \<and>
            bounceCount + length ms < maxBounces \<and>
            (\<forall>p \<in> set ms. onMirror scene p) \<and>
            (hitMirror \<or> ms \<noteq> []) \<and> truthy (r_entityId r)"
proof (induction scene maxBounces ray co cd bounceCount hitMirror
       rule: traceRayLoop.induct)
  case (1 scene maxBounces ray co cd bounceCount hitMirror)
  from "1.prems" have lt: "bounceCount < maxBounces"
    by (subst (asm) traceRayLoop.simps) (simp split: if_splits)
  from "1.prems" lt obtain i where i: "findNearestIntersection co cd scene True = Some i"
    by (subst (asm) traceRayLoop.simps) (simp split: option.splits)
  define ray' where "ray' = ray\<lparr>r_history := r_history ray @ [i_point i]\<rparr>"
  show ?case
  proof (cases "truthy (i_mirrorId i)")
    case True
    have rec: "traceRayLoop scene maxBounces ray' (i_point i) (reflect cd (i_normal i))
                 (bounceCount + 1) True = Some r"
      using "1.prems" lt i True
      by (subst (asm) traceRayLoop.simps) (simp add: Let_def ray'_def)
    have "\<exists>ms e. r_history r = r_history ray' @ ms @ [e] \<and>
            r_origin r = r_origin ray' \<and> r_direction r = r_direction ray' \<and>
            (bounceCount + 1) + length ms < maxBounces \<and>
            (\<forall>p \<in> set ms. onMirror scene p) \<and>
            (True \<or> ms \<noteq> []) \<and> truthy (r_entityId r)"
      using "1.IH"[OF lt i _ True rec] by (simp add: ray'_def)
    then obtain ms e where h: "r_history r = r_history ray' @ ms @ [e]"
      and o: "r_origin r = r_origin ray'" "r_direction r = r_direction ray'"
      and b: "(bounceCount + 1) + length ms < maxBounces"
      and m: "\<forall>p \<in> set ms. onMirror scene p" and t: "truthy (r_entityId r)"
      by blast
    have on: "onMirror scene (i_point i)"
      using i truthy_Some[OF True] by (rule findNearestIntersection_mirror)
    have "r_history r = r_history ray @ (i_point i # ms) @ [e]"
      using h by (simp add: ray'_def)
    moreover have "bounceCount + length (i_point i # ms) < maxBounces" using b by simp
    moreover have "\<forall>p \<in> set (i_point i # ms). onMirror scene p" using m on by simp
    ultimately show ?thesis using o t unfolding ray'_def
      by (intro exI[of _ "i_point i # ms"] exI[of _ e]) simp
  next
    case False
    have r: "hitMirror \<and> r = ray'\<lparr>r_entityId := i_entityId i\<rparr> \<and> truthy (i_entityId i)"
      using "1.prems" lt i False
      by (subst (asm) traceRayLoop.simps) (auto simp: Let_def ray'_def split: if_splits)
    then show ?thesis using lt unfolding ray'_def
      by (intro exI[of _ "[]"] exI[of _ "i_point i"]) simp
  qed
qed

lemma traceRay_shape:
  assumes "traceRay origin direction scene maxBounces = Some r"
  shows "\<exists>ms e. r_history r = origin # ms @ [e] \<and> r_origin r = origin \<and>
            ms \<noteq> [] \<and> length ms < maxBounces \<and>
            (\<forall>p \<in> set ms. onMirror scene p) \<and> truthy (r_entityId r)"
  using traceRayLoop_shape[OF assms[unfolded traceRay_def]] by auto

lemma rays_traceRay:
  "r \<in> set (rays scene) \<Longrightarrow>
     \<exists>i < rayCount. traceRay (p_position (player scene)) (rayAngleDirection i) scene MAX_BOUNCES
                      = Some r"
  by (auto simp: rays_def split: option.splits if_splits)

lemma rays_shape:
  assumes "r \<in> set (rays scene)"
  shows "\<exists>ms e. r_history r = r_origin r # ms @ [e] \<and>
            ms \<noteq> [] \<and> length ms < MAX_BOUNCES \<and>
            (\<forall>p \<in> set ms. onMirror scene p) \<and> truthy (r_entityId r)"
proof -
  from rays_traceRay[OF assms] obtain i where
    "traceRay (p_position (player scene)) (rayAngleDirection i) scene MAX_BOUNCES = Some r"
    by blast
  from traceRay_shape[OF this] show ?thesis by auto
qed

lemma rays_history: "r \<in> set (rays scene) \<Longrightarrow> r_history r \<noteq> []"
  using rays_shape by fastforce

subsection \<open>Selection of one ray per entity\<close>

lemma bestRay_candidate:
  assumes "bestRay scene ent = Some r"
  shows "r \<in> set (candidates scene ent)"
    and "\<And>c. c \<in> set (candidates scene ent) \<Longrightarrow>
           intersectionDistance ent r \<le> intersectionDistance ent c"
proof -
  obtain rest where s: "sort_key (intersectionDistance ent) (candidates scene ent) = r # rest"
    using assms by (auto simp: bestRay_def split: list.splits)
  have "set (r # rest) = set (candidates scene ent)"
    using s by (metis set_sort)
  then show "r \<in> set (candidates scene ent)" by auto
  have "sorted (map (intersectionDistance ent) (r # rest))"
    using s by (metis sorted_sort_key)
  then have "\<forall>c \<in> set rest. intersectionDistance ent r \<le> intersectionDistance ent c"
    by simp
  then show "\<And>c. c \<in> set (candidates scene ent) \<Longrightarrow>
           intersectionDistance ent r \<le> intersectionDistance ent c"
    using \<open>set (r # rest) = set (candidates scene ent)\<close> by auto
qed

lemma bestRay_None: "bestRay scene ent = None \<longleftrightarrow> candidates scene ent = []"
proof -
  have "sort_key (intersectionDistance ent) (candidates scene ent) = [] \<longleftrightarrow>
        candidates scene ent = []"
    by (metis length_sort length_0_conv)
  then show ?thesis by (auto simp: bestRay_def split: list.splits)
qed

lemma candidates_entityId:
  "r \<in> set (candidates scene ent) \<Longrightarrow> r_entityId r = Some (e_id ent) \<and> r \<in> set (rays scene)"
  by (simp add: candidates_def)

lemma trace_mem:
  "r \<in> set (trace scene) \<longleftrightarrow> (\<exists>ent \<in> set (entities scene). bestRay scene ent = Some r)"
  by (force simp: trace_def List.map_filter_def)

lemma trace_rays: "r \<in> set (trace scene) \<Longrightarrow> r \<in> set (rays scene)"
  using trace_mem bestRay_candidate(1) candidates_entityId by blast





lemma trace_nonempty:
  assumes "r \<in> set (rays scene)" "ent \<in> set (entities scene)" "r_entityId r = Some (e_id ent)"
  shows "trace scene \<noteq> []"
proof -
  have "r \<in> set (candidates scene ent)" using assms by (simp add: candidates_def)
  then have "candidates scene ent \<noteq> []" by auto
  then obtain b where "bestRay scene ent = Some b" using bestRay_None by fastforce
  then have "b \<in> set (trace scene)" using assms(2) trace_mem by blast
  then show ?thesis by auto
qed

subsection \<open>The ray of angle 0 in the example scene\<close>

text \<open>
  In \<open>behindScene\<close> the ray of angle 0 leaves the viewer at \<open>(0, 0)\<close> to the right, meets
  the mirror at \<open>(10, 0)\<close>, comes back and meets the first edge of the entity's triangle
  at \<open>(-24, 0)\<close>.
\<close>

lemma sqrt_400: "sqrt 400 = 20"
  by (rule real_sqrt_unique) simp_all

lemmas geometry_defs =
  findNearestIntersection_def mirrorStep_def entityStep_def rayLineIntersection_def
  rayTriangleIntersection_def triangleEdges_def entity_def ENTITY_SIZE_def EPSILON_def
  belowMin_def vec2_sub_def vec2_scaleAndAdd_def vec2_normalize_def Let_def

lemma behind_first_hit:
  "findNearestIntersection (0, 0) (1, 0) behindScene True =
     Some \<lparr>i_point = (10, 0), i_distance = 10, i_normal = (- 1, 0),
           i_mirrorId = Some ''mirror_1'', i_entityId = None\<rparr>"
  by (simp add: behindScene_def geometry_defs sqrt_400)

lemma behind_second_hit:
  "findNearestIntersection (10, 0) (- 1, 0) behindScene True =
     Some \<lparr>i_point = (- 24, 0), i_distance = 34,
           i_normal = triangleNormal (- 20, - 8) (- 28, 8) (- 12, 8),
           i_mirrorId = None, i_entityId = Some ''entity_1''\<rparr>"
  by (simp add: behindScene_def geometry_defs)

lemma behind_traceRay:
  "traceRay (0, 0) (1, 0) behindScene MAX_BOUNCES = Some behindRay"
  unfolding traceRay_def MAX_BOUNCES_def
  apply (subst traceRayLoop.simps)
  apply (simp add: behind_first_hit truthy_def reflect_def vec2_dot_def vec2_scaleAndAdd_def)
  apply (subst traceRayLoop.simps)
  apply (simp add: behind_second_hit truthy_def behindRay_def)
  done

lemma rayAngleDirection_0: "rayAngleDirection 0 = (1, 0)"
  by (simp add: rayAngleDirection_def)

lemma behind_rays: "behindRay \<in> set (rays behindScene)"
proof -
  have "(0::nat) \<in> set [0..<rayCount]" by (simp add: rayCount_def)
  moreover have "behindRay \<in> set (case traceRay (p_position (player behindScene))
        (rayAngleDirection 0) behindScene MAX_BOUNCES of
          None \<Rightarrow> []
        | Some ray \<Rightarrow> if length (r_history ray) > 1 \<and> truthy (r_entityId ray) then [ray] else [])"
  proof -
    have "p_position (player behindScene) = (0, 0)" by (simp add: behindScene_def)
    then show ?thesis
      by (simp add: rayAngleDirection_0 behind_traceRay) (simp add: behindRay_def truthy_def)
  qed
  ultimately show ?thesis unfolding rays_def set_concat set_map by blast
qed

lemma behind_trace_nonempty: "trace behindScene \<noteq> []"
proof (rule trace_nonempty[OF behind_rays])
  show "entity (- 20, 0) ''entity_1'' \<in> set (entities behindScene)"
    by (simp add: behindScene_def)
  show "r_entityId behindRay = Some (e_id (entity (- 20, 0) ''entity_1''))"
    by (simp add: behindRay_def entity_def)
qed


subsection \<open>The ray of angle 0 in the scene with two entities of one id\<close>






subsection \<open>Returned rays have bounced\<close>

text \<open>
  Claim C3. Every ray returned by \<open>trace\<close> has at least two history points, has its
  entity id set (to a non-empty string), and has a history point on a mirror segment of
  the scene: its history is the origin, then at least one mirror hit, then the entity
  hit. So a ray that reaches an entity without a mirror bounce before is not returned.
\<close>

theorem returned_rays_bounced:
  assumes "r \<in> set (trace scene)"
  shows "2 \<le> length (r_history r) \<and> truthy (r_entityId r) \<and>
         (\<exists>p \<in> set (r_history r). onMirror scene p) \<and>
         (\<exists>ms e. r_history r = r_origin r # ms @ [e] \<and> ms \<noteq> [] \<and>
                  (\<forall>p \<in> set ms. onMirror scene p))"
proof -
  from rays_shape[OF trace_rays[OF assms]] obtain ms e where
    h: "r_history r = r_origin r # ms @ [e]" and ne: "ms \<noteq> []"
    and on: "\<forall>p \<in> set ms. onMirror scene p" and t: "truthy (r_entityId r)"
    by blast
  from ne obtain p where p: "p \<in> set ms" by (cases ms) auto
  have "2 \<le> length (r_history r)" using h by simp
  moreover have "\<exists>p \<in> set (r_history r). onMirror scene p"
  proof -
    have "p \<in> set (r_history r)" using p h by simp
    moreover have "onMirror scene p" using p on by blast
    ultimately show ?thesis by blast
  qed
  ultimately show ?thesis using h ne on t by blast
qed

text \<open>Claim C3 at the first ray returned for \<open>behindScene\<close>.\<close>

theorem returned_rays_bounced_witness:
  "hd (trace behindScene) \<in> set (trace behindScene) \<and>
   2 \<le> length (r_history (hd (trace behindScene))) \<and>
   truthy (r_entityId (hd (trace behindScene))) \<and>
   (\<exists>p \<in> set (r_history (hd (trace behindScene))). onMirror behindScene p)"
  using returned_rays_bounced[of "hd (trace behindScene)" behindScene] behind_trace_nonempty
  by simp

subsection \<open>The bounce limit\<close>

text \<open>
  Claim C10. Every ray returned by \<open>trace\<close> has at most 9 mirror hits between its
  origin and its entity hit, one less than \<open>MAX_BOUNCES\<close>, so its history has at most
  11 points.
\<close>

theorem returned_rays_bounce_limit:
  assumes "r \<in> set (trace scene)"
  shows "length (r_history r) \<le> 11 \<and>
         (\<exists>ms e. r_history r = r_origin r # ms @ [e] \<and> length ms \<le> 9 \<and>
                  (\<forall>p \<in> set ms. onMirror scene p))"
proof -
  from rays_shape[OF trace_rays[OF assms]] obtain ms e where
    h: "r_history r = r_origin r # ms @ [e]" and len: "length ms < MAX_BOUNCES"
    and on: "\<forall>p \<in> set ms. onMirror scene p"
    by blast
  from len have l9: "length ms \<le> 9" by (simp add: MAX_BOUNCES_def)
  then have "length (r_history r) \<le> 11" using h by simp
  then show ?thesis using h l9 on by blast
qed

text \<open>Claim C10 at the first ray returned for \<open>behindScene\<close>.\<close>

theorem returned_rays_bounce_limit_witness:
  "hd (trace behindScene) \<in> set (trace behindScene) \<and>
   length (r_history (hd (trace behindScene))) \<le> 11"
  using returned_rays_bounce_limit[of "hd (trace behindScene)" behindScene] behind_trace_nonempty
  by simp

subsection \<open>Scenes without mirrors\<close>

lemma no_mirrors_traceRay:
  assumes "mirrors scene = []"
  shows "traceRay origin direction scene maxBounces = None"
proof (cases "traceRay origin direction scene maxBounces")
  case None
  then show ?thesis .
next
  case (Some r)
  from traceRay_shape[OF Some] obtain ms where "ms \<noteq> []" "\<forall>p \<in> set ms. onMirror scene p"
    by blast
  then obtain p where "onMirror scene p" by (cases ms) auto
  then show ?thesis using assms by (simp add: onMirror_def)
qed

text \<open>
  Claim C8. For a scene whose mirror list is empty, \<open>trace\<close> returns the empty list and
  \<open>calculateVirtualImages\<close> returns the empty list. Both are ordinary results: no ray
  survives, so \<open>lastIntersection\<close> is never called, and no other operation of the two
  functions can fail.
\<close>

theorem no_mirrors_empty_results:
  assumes "mirrors scene = []"
  shows "trace scene = [] \<and> calculateVirtualImages scene bounds = []"
proof -
  have "rays scene = []"
    by (simp add: rays_def no_mirrors_traceRay[OF assms])
  then have "\<And>ent. bestRay scene ent = None"
    by (simp add: bestRay_None candidates_def)
  then have "trace scene = []" by (simp add: trace_def List.map_filter_def)
  moreover have "calculateVirtualImages scene bounds = []"
    unfolding calculateVirtualImages_def
    by (subst calculateVirtualRoomsRecursive.simps) (simp add: assms)
  ultimately show ?thesis by simp
qed

text \<open>Claim C8 at the single-mirror preset with its mirror removed.\<close>

theorem no_mirrors_empty_results_witness:
  "mirrors noMirrorScene = [] \<and> trace noMirrorScene = [] \<and>
   calculateVirtualImages noMirrorScene (400, 300) = []"
  using no_mirrors_empty_results[of noMirrorScene "(400, 300)"]
  by (simp add: noMirrorScene_def)

subsection \<open>One ray per entity\<close>





end
